theory Spec2Isabelle
  imports Complex_Main "HOL-Library.Word"
begin

section \<open>Numbers, points and events\<close>

text \<open>
  JavaScript numbers are idealised: a finite value is a real (the rounding of IEEE doubles
  and the sign of zero are not modelled), and the three non-finite values that a division
  by zero produces are kept apart, since HOL's own \<open>x / 0\<close> is \<open>0\<close>.
\<close>

datatype number = Fin real | PInf | NInf | NaN

text \<open>\<open>a / n\<close> where \<open>n\<close> is the unsigned \<open>width\<close> or \<open>height\<close> attribute of a canvas element.\<close>

definition number_div :: "real \<Rightarrow> nat \<Rightarrow> number" where
  "number_div a n =
     (if n \<noteq> 0 then Fin (a / real n)
      else if 0 < a then PInf else if a < 0 then NInf else NaN)"

text \<open>\<open>a * r\<close> for a finite \<open>a\<close>.\<close>

fun number_times :: "real \<Rightarrow> number \<Rightarrow> number" where
  "number_times a (Fin q) = Fin (a * q)"
| "number_times a PInf = (if 0 < a then PInf else if a < 0 then NInf else NaN)"
| "number_times a NInf = (if 0 < a then NInf else if a < 0 then PInf else NaN)"
| "number_times a NaN = NaN"

fun Math_floor :: "number \<Rightarrow> number" where
  "Math_floor (Fin a) = Fin (of_int \<lfloor>a\<rfloor>)"
| "Math_floor PInf = PInf"
| "Math_floor NInf = NInf"
| "Math_floor NaN = NaN"

text \<open>\<open>utils/Point\<close>: the two coordinates that the tools read and write.\<close>

record Point =
  point_x :: number
  point_y :: number

text \<open>The two fields of a \<open>MouseEvent\<close> that the code reads.\<close>

record MouseEvent =
  clientX :: real
  clientY :: real

record ClientRect =
  rect_left :: real
  rect_top :: real
  rect_right :: real
  rect_bottom :: real

section \<open>Canvas\<close>

text \<open>
  \<open>ImageData\<close>: the dimensions and the RGBA bytes (a \<open>Uint8ClampedArray\<close>), four per
  pixel, row by row.
\<close>

record ImageData =
  img_width :: nat
  img_height :: nat
  data :: "8 word list"

text \<open>
  Class \<open>Canvas\<close>. \<open>width\<close> and \<open>height\<close> are the fields of the class, \<open>canvas_width\<close> and
  \<open>canvas_height\<close> the attributes \<open>this.canvas.width\<close> and \<open>this.canvas.height\<close> of the
  canvas element, and \<open>pixels\<close> the bitmap behind the 2D context. \<open>updateDimensions\<close> sets the
  fields and the attributes together, so the rectangle \<open>(0, 0, width, height)\<close> that
  \<open>getImageData\<close> and \<open>clear\<close> name is the whole bitmap; the calls on the 2D context are
  taken to succeed.
\<close>

record Canvas =
  width :: nat
  height :: nat
  canvas_width :: nat
  canvas_height :: nat
  canvasBoundingRect :: ClientRect
  pixels :: "8 word list"

definition getImageData :: "Canvas \<Rightarrow> ImageData" where
  "getImageData c = \<lparr>img_width = width c, img_height = height c, data = pixels c\<rparr>"

definition setImageData :: "Canvas \<Rightarrow> ImageData \<Rightarrow> Canvas" where
  "setImageData c d = c\<lparr>pixels := data d\<rparr>"

definition clear :: "Canvas \<Rightarrow> Canvas" where
  "clear c = c\<lparr>pixels := replicate (length (pixels c)) 0\<rparr>"

definition getMouseEventCoordinates :: "Canvas \<Rightarrow> MouseEvent \<Rightarrow> Point" where
  "getMouseEventCoordinates c event =
     (let boundingRect = canvasBoundingRect c;
          mouseX = clientX event - rect_left boundingRect;
          mouseY = clientY event - rect_top boundingRect
      in \<lparr>point_x = number_times mouseX
             (number_div (rect_right boundingRect - rect_left boundingRect) (canvas_width c)),
          point_y = number_times mouseY
             (number_div (rect_bottom boundingRect - rect_top boundingRect) (canvas_height c))\<rparr>)"

text \<open>
  Canvases are objects shared by reference between the workspace, its layers and the
  tools: a store maps each reference to the canvas it denotes.
\<close>

type_synonym canvas_ref = nat
type_synonym store = "canvas_ref \<Rightarrow> Canvas"

section \<open>Colour effects\<close>

text \<open>
  Modelled from the spec: \<open>ColorEffects.inverseColors\<close> (\<open>DrawingPrimitives/ColorEffects\<close> is
  not among the sources). For every pixel, each of the R, G and B channels becomes
  \<open>255 - channel\<close> and the alpha channel is left as it is.
\<close>

fun inverseColors_data :: "8 word list \<Rightarrow> 8 word list" where
  "inverseColors_data (r # g # b # a # rest) =
     (255 - r) # (255 - g) # (255 - b) # a # inverseColors_data rest"
| "inverseColors_data rest = rest"

definition inverseColors :: "ImageData \<Rightarrow> ImageData" where
  "inverseColors imageData = imageData\<lparr>data := inverseColors_data (data imageData)\<rparr>"

text \<open>
  The part of \<open>ImageWorkspace\<close> that the tools and effects use: the selected layer (or
  \<open>null\<close>) with its canvas, the working canvas and the drawing canvas.
\<close>

record Layer =
  canvas :: canvas_ref

record LayerManager =
  selectedLayer :: "Layer option"

record ImageWorkspace =
  drawingLayers :: LayerManager
  workingCanvas :: canvas_ref
  drawingCanvas :: canvas_ref

text \<open>\<open>InverseColorEffect.apply\<close>, on the workspace of the effect and the store.\<close>

definition InverseColorEffect_apply :: "ImageWorkspace \<Rightarrow> store \<Rightarrow> ImageWorkspace \<times> store" where
  "InverseColorEffect_apply workspace h =
     (case selectedLayer (drawingLayers workspace) of
        None \<Rightarrow> (workspace, h)
      | Some layer \<Rightarrow>
          (let imageData = getImageData (h (canvas layer));
               imageData' = inverseColors imageData
           in (workspace, h(canvas layer := setImageData (h (canvas layer)) imageData'))))"

section \<open>Ellipse tool\<close>

definition floorPoint :: "Point \<Rightarrow> Point" where
  "floorPoint p = p\<lparr>point_x := Math_floor (point_x p), point_y := Math_floor (point_y p)\<rparr>"

text \<open>
  \<open>Ellipse.drawFromBoundingRect\<close> and \<open>Line.draw\<close> with \<open>Line.paintItBlack\<close> belong to
  \<open>DrawingPrimitives\<close>, which is not among the sources. The tools take them as parameters:
  functions that receive the two points as the tool holds them (possibly \<open>null\<close>) and the
  image data, and return the image data as they leave it.
\<close>

type_synonym ellipse_primitive = "Point option \<Rightarrow> Point option \<Rightarrow> ImageData \<Rightarrow> ImageData"
type_synonym line_primitive = "ImageData \<Rightarrow> Point option \<Rightarrow> Point \<Rightarrow> ImageData"

text \<open>
  Class \<open>EllipseTool\<close>: its two points, and the references to the working canvas and to
  the drawing canvas that it inherits from \<open>DrawingTool\<close>.
\<close>

record EllipseTool =
  firstPoint :: "Point option"
  secondPoint :: "Point option"
  tool_workingCanvas :: canvas_ref
  tool_drawingCanvas :: canvas_ref

definition EllipseTool_new :: "canvas_ref \<Rightarrow> canvas_ref \<Rightarrow> EllipseTool" where
  "EllipseTool_new wc dc =
     \<lparr>firstPoint = None, secondPoint = None, tool_workingCanvas = wc, tool_drawingCanvas = dc\<rparr>"

definition EllipseTool_apply :: "ellipse_primitive \<Rightarrow> EllipseTool \<Rightarrow> store \<Rightarrow> canvas_ref \<Rightarrow> store" where
  "EllipseTool_apply drawFromBoundingRect t h target =
     (let imageData = getImageData (h target);
          imageData' = drawFromBoundingRect (firstPoint t) (secondPoint t) imageData
      in h(target := setImageData (h target) imageData'))"

definition EllipseTool_onMouseDown :: "EllipseTool \<Rightarrow> store \<Rightarrow> MouseEvent \<Rightarrow> EllipseTool \<times> store" where
  "EllipseTool_onMouseDown t h event =
     (t\<lparr>firstPoint :=
          Some (floorPoint (getMouseEventCoordinates (h (tool_workingCanvas t)) event))\<rparr>, h)"

definition EllipseTool_onMouseUp ::
  "ellipse_primitive \<Rightarrow> EllipseTool \<Rightarrow> store \<Rightarrow> MouseEvent \<Rightarrow> EllipseTool \<times> store" where
  "EllipseTool_onMouseUp drawFromBoundingRect t h event =
     (if firstPoint t = None then (t, h)
      else
        (let t1 = t\<lparr>secondPoint :=
                    Some (floorPoint (getMouseEventCoordinates (h (tool_workingCanvas t)) event))\<rparr>;
             h1 = EllipseTool_apply drawFromBoundingRect t1 h (tool_drawingCanvas t1);
             h2 = h1(tool_workingCanvas t1 := clear (h1 (tool_workingCanvas t1)))
         in (t1\<lparr>firstPoint := None, secondPoint := None\<rparr>, h2)))"

definition EllipseTool_onMouseMove ::
  "ellipse_primitive \<Rightarrow> EllipseTool \<Rightarrow> store \<Rightarrow> MouseEvent \<Rightarrow> EllipseTool \<times> store" where
  "EllipseTool_onMouseMove drawFromBoundingRect t h event =
     (if firstPoint t = None then (t, h)
      else
        (let t1 = t\<lparr>secondPoint :=
                    Some (floorPoint (getMouseEventCoordinates (h (tool_workingCanvas t)) event))\<rparr>;
             h1 = h(tool_workingCanvas t1 := clear (h (tool_workingCanvas t1)))
         in (t1, EllipseTool_apply drawFromBoundingRect t1 h1 (tool_workingCanvas t1))))"

text \<open>
  The events that \<open>initEventHandlers\<close> subscribes to, and the handler each one is routed to.
\<close>

datatype DomEvent = mousedown MouseEvent | mouseup MouseEvent | mousemove MouseEvent

fun EllipseTool_handle ::
  "ellipse_primitive \<Rightarrow> EllipseTool \<times> store \<Rightarrow> DomEvent \<Rightarrow> EllipseTool \<times> store" where
  "EllipseTool_handle prim (t, h) (mousedown event) = EllipseTool_onMouseDown t h event"
| "EllipseTool_handle prim (t, h) (mouseup event) = EllipseTool_onMouseUp prim t h event"
| "EllipseTool_handle prim (t, h) (mousemove event) = EllipseTool_onMouseMove prim t h event"

definition EllipseTool_run ::
  "ellipse_primitive \<Rightarrow> EllipseTool \<times> store \<Rightarrow> DomEvent list \<Rightarrow> EllipseTool \<times> store" where
  "EllipseTool_run prim s events = foldl (EllipseTool_handle prim) s events"

section \<open>Free-hand tool\<close>

record FreeHandParameters =
  color :: string
  thickess :: nat

text \<open>Class \<open>FreeHandTool\<close>: its parameters, the last position, and the workspace of \<open>Tool\<close>.\<close>

record FreeHandTool =
  parameters :: FreeHandParameters
  lastPosition :: "Point option"
  workspace :: ImageWorkspace

definition FreeHandTool_new :: "ImageWorkspace \<Rightarrow> FreeHandTool" where
  "FreeHandTool_new w =
     \<lparr>parameters = \<lparr>color = ''#000000'', thickess = 1\<rparr>, lastPosition = None, workspace = w\<rparr>"

definition FreeHandTool_drawLine ::
  "line_primitive \<Rightarrow> FreeHandTool \<Rightarrow> store \<Rightarrow> canvas_ref \<Rightarrow> Point \<Rightarrow> store" where
  "FreeHandTool_drawLine draw t h target currentPosition =
     (let imageData = getImageData (h target);
          imageData' = draw imageData (lastPosition t) currentPosition
      in h(target := setImageData (h target) imageData'))"

definition FreeHandTool_onMouseDown ::
  "FreeHandTool \<Rightarrow> store \<Rightarrow> MouseEvent \<Rightarrow> FreeHandTool \<times> store" where
  "FreeHandTool_onMouseDown t h event =
     (if lastPosition t \<noteq> None then (t, h)
      else (t\<lparr>lastPosition :=
                Some (floorPoint
                  (getMouseEventCoordinates (h (workingCanvas (workspace t))) event))\<rparr>, h))"

definition FreeHandTool_onMouseMove ::
  "line_primitive \<Rightarrow> FreeHandTool \<Rightarrow> store \<Rightarrow> MouseEvent \<Rightarrow> FreeHandTool \<times> store" where
  "FreeHandTool_onMouseMove draw t h event =
     (if lastPosition t = None then (t, h)
      else
        (let currentPosition =
               floorPoint (getMouseEventCoordinates (h (workingCanvas (workspace t))) event);
             h1 = FreeHandTool_drawLine draw t h (drawingCanvas (workspace t)) currentPosition
         in (t\<lparr>lastPosition := Some currentPosition\<rparr>, h1)))"

definition FreeHandTool_onMouseUp ::
  "line_primitive \<Rightarrow> FreeHandTool \<Rightarrow> store \<Rightarrow> MouseEvent \<Rightarrow> FreeHandTool \<times> store" where
  "FreeHandTool_onMouseUp draw t h event =
     (let (t1, h1) = FreeHandTool_onMouseMove draw t h event
      in (t1\<lparr>lastPosition := None\<rparr>, h1))"

fun FreeHandTool_handle ::
  "line_primitive \<Rightarrow> FreeHandTool \<times> store \<Rightarrow> DomEvent \<Rightarrow> FreeHandTool \<times> store" where
  "FreeHandTool_handle draw (t, h) (mousedown event) = FreeHandTool_onMouseDown t h event"
| "FreeHandTool_handle draw (t, h) (mouseup event) = FreeHandTool_onMouseUp draw t h event"
| "FreeHandTool_handle draw (t, h) (mousemove event) = FreeHandTool_onMouseMove draw t h event"

definition FreeHandTool_run ::
  "line_primitive \<Rightarrow> FreeHandTool \<times> store \<Rightarrow> DomEvent list \<Rightarrow> FreeHandTool \<times> store" where
  "FreeHandTool_run draw s events = foldl (FreeHandTool_handle draw) s events"

section \<open>Line primitive\<close>

text \<open>
  Modelled from the spec: \<open>Line.draw\<close> with \<open>Line.paintItBlack\<close> (\<open>DrawingPrimitives/Line\<close> is
  not among the sources). The segment between two integer pixel points is rasterised one
  pixel wide by stepping from the first point to the second, an accumulated error term
  choosing the axis to advance at each step; the colour function is called once per visited
  pixel and paints it opaque black; equal end points give a single pixel. A pixel outside
  the buffer is not written. The spec defines the primitive on integer pixel points only:
  on any other argument the model leaves the image data as it is.
\<close>

definition paintItBlack :: "ImageData \<Rightarrow> int \<Rightarrow> int \<Rightarrow> ImageData" where
  "paintItBlack imageData px py =
     (if 0 \<le> px \<and> px < int (img_width imageData) \<and> 0 \<le> py \<and> py < int (img_height imageData)
      then (let i = 4 * (nat py * img_width imageData + nat px)
            in imageData\<lparr>data := (data imageData)[i := 0, i + 1 := 0, i + 2 := 0, i + 3 := 255]\<rparr>)
      else imageData)"

fun Line_steps ::
  "nat \<Rightarrow> int \<Rightarrow> int \<Rightarrow> int \<Rightarrow> int \<Rightarrow> int \<Rightarrow> int \<Rightarrow> int \<Rightarrow> ImageData \<Rightarrow> ImageData" where
  "Line_steps 0 dx dy sx sy px py err imageData = paintItBlack imageData px py"
| "Line_steps (Suc n) dx dy sx sy px py err imageData =
     (let painted = paintItBlack imageData px py;
          e2 = 2 * err;
          stepx = (- dy < e2);
          stepy = (e2 < dx)
      in Line_steps n dx dy sx sy
           (if stepx then px + sx else px) (if stepy then py + sy else py)
           ((if stepx then err - dy else err) + (if stepy then dx else 0)) painted)"

definition Line_draw_pixels :: "ImageData \<Rightarrow> int \<times> int \<Rightarrow> int \<times> int \<Rightarrow> ImageData" where
  "Line_draw_pixels imageData p0 p1 =
     (let dx = \<bar>fst p1 - fst p0\<bar>; dy = \<bar>snd p1 - snd p0\<bar>;
          sx = (if fst p0 < fst p1 then 1 else - 1);
          sy = (if snd p0 < snd p1 then 1 else - 1)
      in Line_steps (nat (max dx dy)) dx dy sx sy (fst p0) (snd p0) (dx - dy) imageData)"

definition pixel_of :: "Point \<Rightarrow> (int \<times> int) option" where
  "pixel_of p =
     (case (point_x p, point_y p) of
        (Fin a, Fin b) \<Rightarrow> if a = of_int \<lfloor>a\<rfloor> \<and> b = of_int \<lfloor>b\<rfloor> then Some (\<lfloor>a\<rfloor>, \<lfloor>b\<rfloor>) else None
      | _ \<Rightarrow> None)"

definition Line_draw_black :: line_primitive where
  "Line_draw_black imageData p0 p1 =
     (case (Option.bind p0 pixel_of, pixel_of p1) of
        (Some a, Some b) \<Rightarrow> Line_draw_pixels imageData a b
      | _ \<Rightarrow> imageData)"

text \<open>
  No ellipse primitive is modelled: the theorems about the ellipse tool hold for every
  primitive. Where an example of the ellipse tool needs one, it strokes the diagonal of
  the bounding rectangle.
\<close>

definition diagonal_stroke :: ellipse_primitive where
  "diagonal_stroke p0 p1 imageData =
     (case p1 of None \<Rightarrow> imageData | Some b \<Rightarrow> Line_draw_black imageData p0 b)"

section \<open>The invariant of the ellipse tool, and example objects\<close>

definition EllipseTool_inv :: "EllipseTool \<Rightarrow> bool" where
  "EllipseTool_inv t = (firstPoint t = None \<longrightarrow> secondPoint t = None)"

text \<open>
  A transparent canvas of \<open>w\<close> by \<open>h\<close> pixels shown at its own size at the origin of the
  client area, and the same bitmap shown at \<open>s\<close> times its size.
\<close>

definition scaled_canvas :: "nat \<Rightarrow> nat \<Rightarrow> nat \<Rightarrow> Canvas" where
  "scaled_canvas s w h =
     \<lparr>width = w, height = h, canvas_width = w, canvas_height = h,
      canvasBoundingRect =
        \<lparr>rect_left = 0, rect_top = 0, rect_right = real (s * w), rect_bottom = real (s * h)\<rparr>,
      pixels = replicate (4 * w * h) 0\<rparr>"

definition blank_canvas :: "nat \<Rightarrow> nat \<Rightarrow> Canvas" where
  "blank_canvas w h = scaled_canvas 1 w h"

definition pointer :: "real \<Rightarrow> real \<Rightarrow> MouseEvent" where
  "pointer a b = \<lparr>clientX = a, clientY = b\<rparr>"

definition pixel_point :: "int \<Rightarrow> int \<Rightarrow> Point" where
  "pixel_point a b = \<lparr>point_x = Fin (of_int a), point_y = Fin (of_int b)\<rparr>"

text \<open>
  A workspace whose working canvas, drawing canvas and selected layer are three different
  canvases, each four pixels wide and one pixel high, all transparent.
\<close>

definition example_workspace :: ImageWorkspace where
  "example_workspace =
     \<lparr>drawingLayers = \<lparr>selectedLayer = Some \<lparr>canvas = 2\<rparr>\<rparr>, workingCanvas = 0, drawingCanvas = 1\<rparr>"

definition unselected_workspace :: ImageWorkspace where
  "unselected_workspace =
     \<lparr>drawingLayers = \<lparr>selectedLayer = None\<rparr>, workingCanvas = 0, drawingCanvas = 1\<rparr>"

definition example_store :: store where
  "example_store = (\<lambda>r. blank_canvas 4 1)"

text \<open>Both tools in the middle of a gesture that started at pixel \<open>(0, 0)\<close>.\<close>

definition ellipse_dragging :: EllipseTool where
  "ellipse_dragging = fst (EllipseTool_onMouseDown (EllipseTool_new 0 1) example_store (pointer 0 0))"

definition freehand_dragging :: FreeHandTool where
  "freehand_dragging =
     fst (FreeHandTool_onMouseDown (FreeHandTool_new example_workspace) example_store (pointer 0 0))"

text \<open>
  The ellipse tool and the canvases after a pointer-down at \<open>(0, 0)\<close> and a pointer-move to
  \<open>(1, 0)\<close>: the gesture is in progress and the working canvas shows its preview.
\<close>

definition ellipse_previewing :: "EllipseTool \<times> store" where
  "ellipse_previewing =
     EllipseTool_run diagonal_stroke (EllipseTool_new 0 1, example_store)
       [mousedown (pointer 0 0), mousemove (pointer 1 0)]"

section \<open>Evaluating the examples\<close>

lemma example_store_at:
  "example_store r =
     \<lparr>width = 4, height = 1, canvas_width = 4, canvas_height = 1,
      canvasBoundingRect = \<lparr>rect_left = 0, rect_top = 0, rect_right = 4, rect_bottom = 1\<rparr>,
      pixels = [0, 0, 0, 0, 0, 0, 0, 0, 0, 0, 0, 0, 0, 0, 0, 0]\<rparr>"
  by (simp add: example_store_def blank_canvas_def scaled_canvas_def numeral_eq_Suc)

lemma Line_steps_numeral:
  "Line_steps (numeral k) dx dy sx sy px py err imageData =
     Line_steps (pred_numeral k) dx dy sx sy
       (if - dy < 2 * err then px + sx else px) (if 2 * err < dx then py + sy else py)
       ((if - dy < 2 * err then err - dy else err) + (if 2 * err < dx then dx else 0))
       (paintItBlack imageData px py)"
  by (simp add: numeral_eq_Suc Let_def)

lemmas canvas_defs = getImageData_def setImageData_def clear_def getMouseEventCoordinates_def
  number_div_def floorPoint_def

lemmas line_defs = Line_draw_black_def Line_draw_pixels_def paintItBlack_def pixel_of_def
  diagonal_stroke_def Line_steps_numeral

lemmas example_defs = pointer_def pixel_point_def example_workspace_def
  unselected_workspace_def example_store_at

lemmas ellipse_defs = EllipseTool_new_def EllipseTool_apply_def EllipseTool_onMouseDown_def
  EllipseTool_onMouseUp_def EllipseTool_onMouseMove_def EllipseTool_run_def

lemmas freehand_defs = FreeHandTool_new_def FreeHandTool_drawLine_def
  FreeHandTool_onMouseDown_def FreeHandTool_onMouseMove_def FreeHandTool_onMouseUp_def
  FreeHandTool_run_def

lemma ellipse_dragging_eq:
  "ellipse_dragging = (EllipseTool_new 0 1)\<lparr>firstPoint := Some (pixel_point 0 0)\<rparr>"
  by (simp add: ellipse_dragging_def ellipse_defs canvas_defs example_defs)

lemma freehand_dragging_eq:
  "freehand_dragging = (FreeHandTool_new example_workspace)\<lparr>lastPosition := Some (pixel_point 0 0)\<rparr>"
  by (simp add: freehand_dragging_def freehand_defs canvas_defs example_defs)

lemma ellipse_previewing_tool:
  "fst ellipse_previewing =
     (EllipseTool_new 0 1)\<lparr>firstPoint := Some (pixel_point 0 0),
                            secondPoint := Some (pixel_point 1 0)\<rparr>"
  by (simp add: ellipse_previewing_def ellipse_defs canvas_defs example_defs Let_def)

lemma ellipse_previewing_store:
  "snd ellipse_previewing =
     example_store(0 := (example_store 0)
       \<lparr>pixels := [0, 0, 0, 255, 0, 0, 0, 255, 0, 0, 0, 0, 0, 0, 0, 0]\<rparr>)"
  by (simp add: ellipse_previewing_def ellipse_defs canvas_defs line_defs example_defs Let_def)

section \<open>Colour inversion\<close>

lemma inverseColors_data_length: "length (inverseColors_data d) = length d"
  by (induction d rule: inverseColors_data.induct) simp_all

lemma inverseColors_data_twice: "inverseColors_data (inverseColors_data d) = d"
  by (induction d rule: inverseColors_data.induct) simp_all

lemma inverseColors_data_pixel:
  "p < length d div 4 \<Longrightarrow>
     inverseColors_data d ! (4 * p) = 255 - d ! (4 * p) \<and>
     inverseColors_data d ! (4 * p + 1) = 255 - d ! (4 * p + 1) \<and>
     inverseColors_data d ! (4 * p + 2) = 255 - d ! (4 * p + 2) \<and>
     inverseColors_data d ! (4 * p + 3) = d ! (4 * p + 3)"
proof (induction d arbitrary: p rule: inverseColors_data.induct)
  case (1 r g b a rest)
  show ?case
  proof (cases p)
    case 0
    then show ?thesis by simp
  next
    case (Suc q)
    with "1.prems" have "q < length rest div 4" by simp
    from "1.IH" [OF this] Suc show ?thesis by (simp add: numeral_eq_Suc)
  qed
qed simp_all

text \<open>
  C8. \<open>inverseColors\<close> keeps the dimensions and the length of the buffer; for every pixel
  \<open>p\<close> of the buffer it replaces the R, G and B channels (bytes \<open>4p\<close>, \<open>4p + 1\<close>, \<open>4p + 2\<close>)
  with 255 minus the channel and leaves the alpha channel (byte \<open>4p + 3\<close>) as it is, after
  one application and after two; applied twice it gives back the buffer it started from.
\<close>

theorem inverseColors_involution:
  "img_width (inverseColors b) = img_width b \<and> img_height (inverseColors b) = img_height b \<and>
   length (data (inverseColors b)) = length (data b) \<and>
   (\<forall>p < length (data b) div 4.
      data (inverseColors b) ! (4 * p) = 255 - data b ! (4 * p) \<and>
      data (inverseColors b) ! (4 * p + 1) = 255 - data b ! (4 * p + 1) \<and>
      data (inverseColors b) ! (4 * p + 2) = 255 - data b ! (4 * p + 2) \<and>
      data (inverseColors b) ! (4 * p + 3) = data b ! (4 * p + 3) \<and>
      data (inverseColors (inverseColors b)) ! (4 * p + 3) = data b ! (4 * p + 3)) \<and>
   inverseColors (inverseColors b) = b"
  using inverseColors_data_pixel [of _ "data b"]
  by (simp add: inverseColors_def inverseColors_data_length inverseColors_data_twice)

theorem inverseColors_involution_witness:
  "data (inverseColors \<lparr>img_width = 2, img_height = 1, data = [10, 20, 30, 40, 0, 255, 128, 7]\<rparr>)
     = [245, 235, 225, 40, 255, 0, 127, 7] \<and>
   inverseColors (inverseColors \<lparr>img_width = 2, img_height = 1, data = [10, 20, 30, 40, 0, 255, 128, 7]\<rparr>)
     = \<lparr>img_width = 2, img_height = 1, data = [10, 20, 30, 40, 0, 255, 128, 7]\<rparr>"
  using inverseColors_involution
    [of "\<lparr>img_width = 2, img_height = 1, data = [10, 20, 30, 40, 0, 255, 128, 7]\<rparr>"]
  by (simp add: inverseColors_def)

section \<open>The inverse-colour effect\<close>

text \<open>
  C7. With no layer selected, \<open>apply\<close> returns the workspace and every canvas as they were.
  With a layer selected, the workspace is as it was and the canvas of that layer holds the
  inverted pixel data of that same canvas.
\<close>

theorem InverseColorEffect_apply_selection:
  "(selectedLayer (drawingLayers w) = None \<longrightarrow> InverseColorEffect_apply w h = (w, h)) \<and>
   (\<forall>l. selectedLayer (drawingLayers w) = Some l \<longrightarrow>
      fst (InverseColorEffect_apply w h) = w \<and>
      snd (InverseColorEffect_apply w h) (canvas l) =
        setImageData (h (canvas l)) (inverseColors (getImageData (h (canvas l)))) \<and>
      pixels (snd (InverseColorEffect_apply w h) (canvas l)) =
        inverseColors_data (pixels (h (canvas l))))"
  by (simp add: InverseColorEffect_apply_def Let_def setImageData_def getImageData_def
      inverseColors_def)

theorem InverseColorEffect_apply_selection_witness:
  "InverseColorEffect_apply unselected_workspace example_store =
     (unselected_workspace, example_store) \<and>
   fst (InverseColorEffect_apply example_workspace example_store) = example_workspace \<and>
   pixels (snd (InverseColorEffect_apply example_workspace example_store) 2) =
     [255, 255, 255, 0, 255, 255, 255, 0, 255, 255, 255, 0, 255, 255, 255, 0]"
  using InverseColorEffect_apply_selection [of unselected_workspace example_store]
    InverseColorEffect_apply_selection [of example_workspace example_store]
  by (simp add: InverseColorEffect_apply_def Let_def canvas_defs inverseColors_def example_defs)

text \<open>
  C10. With a layer selected, \<open>apply\<close> leaves the workspace (the selection with it) as it
  was, leaves every canvas other than the canvas of the selected layer as it was, and
  changes nothing but the pixel data in the canvas of the selected layer.
\<close>

theorem InverseColorEffect_apply_frame:
  "selectedLayer (drawingLayers w) = Some l \<Longrightarrow>
     fst (InverseColorEffect_apply w h) = w \<and>
     (\<forall>r. r \<noteq> canvas l \<longrightarrow> snd (InverseColorEffect_apply w h) r = h r) \<and>
     snd (InverseColorEffect_apply w h) (canvas l) =
       (h (canvas l))\<lparr>pixels := pixels (snd (InverseColorEffect_apply w h) (canvas l))\<rparr>"
  by (simp add: InverseColorEffect_apply_def Let_def setImageData_def)

theorem InverseColorEffect_apply_frame_witness:
  "selectedLayer (drawingLayers example_workspace) = Some \<lparr>canvas = 2\<rparr> \<and>
   fst (InverseColorEffect_apply example_workspace example_store) = example_workspace \<and>
   snd (InverseColorEffect_apply example_workspace example_store) (workingCanvas example_workspace)
     = example_store (workingCanvas example_workspace) \<and>
   snd (InverseColorEffect_apply example_workspace example_store) (drawingCanvas example_workspace)
     = example_store (drawingCanvas example_workspace) \<and>
   snd (InverseColorEffect_apply example_workspace example_store) 2 \<noteq> example_store 2"
proof -
  have sel: "selectedLayer (drawingLayers example_workspace) = Some \<lparr>canvas = 2\<rparr>"
    by (simp add: example_workspace_def)
  have "pixels (snd (InverseColorEffect_apply example_workspace example_store) 2) \<noteq>
        pixels (example_store 2)"
    by (simp add: InverseColorEffect_apply_def Let_def canvas_defs inverseColors_def example_defs)
  then have "snd (InverseColorEffect_apply example_workspace example_store) 2 \<noteq> example_store 2"
    by auto
  with sel InverseColorEffect_apply_frame [OF sel, of example_store]
  show ?thesis by (simp add: example_workspace_def)
qed

section \<open>Coordinates of a mouse event\<close>

text \<open>
  C3. \<open>getMouseEventCoordinates\<close> should map the client offset into the pixel space of the
  bitmap: for a bitmap of 2 by 2 pixels shown at twice its size, the event at client offset
  \<open>(3, 3)\<close> lies over the point \<open>(1.5, 1.5)\<close> of the bitmap. The code multiplies the offset
  by the ratio of the shown size to the bitmap size, where it should divide, and returns
  \<open>(6, 6)\<close>, a point outside the bitmap.
\<close>

theorem getMouseEventCoordinates_scaled:
  "getMouseEventCoordinates (scaled_canvas 2 2 2) (pointer 3 3) = pixel_point 6 6"
  by (simp add: canvas_defs scaled_canvas_def pointer_def pixel_point_def)

section \<open>Pointer-up with no gesture in progress\<close>

text \<open>
  C6. When the ellipse tool has no first point, and when the free-hand tool has no last
  position, \<open>onMouseUp\<close> returns the tool and every canvas as they were.
\<close>

theorem onMouseUp_idle:
  "(firstPoint t = None \<longrightarrow> EllipseTool_onMouseUp prim t h e = (t, h)) \<and>
   (lastPosition f = None \<longrightarrow> FreeHandTool_onMouseUp draw f h e = (f, h))"
  by (simp add: EllipseTool_onMouseUp_def FreeHandTool_onMouseUp_def FreeHandTool_onMouseMove_def)

theorem onMouseUp_idle_witness:
  "EllipseTool_onMouseUp diagonal_stroke (EllipseTool_new 0 1) example_store (pointer 2 0) =
     (EllipseTool_new 0 1, example_store) \<and>
   FreeHandTool_onMouseUp Line_draw_black (FreeHandTool_new example_workspace) example_store
       (pointer 2 0) =
     (FreeHandTool_new example_workspace, example_store)"
  using onMouseUp_idle [of "EllipseTool_new 0 1" diagonal_stroke example_store "pointer 2 0"
      "FreeHandTool_new example_workspace" Line_draw_black]
  by (simp add: EllipseTool_new_def FreeHandTool_new_def)

section \<open>Pointer-up of the ellipse tool during a gesture\<close>

text \<open>
  C5. When the ellipse tool, with a working canvas and a drawing canvas that are two
  canvases, receives pointer-up while its first point is set, then afterwards: the drawing
  canvas holds what the primitive made of its former pixel data, from the first point and
  the floored position of the event; the working canvas has as many bytes as before and
  every one of them is 0, whatever it showed, and nothing else of it has changed; no other
  canvas has changed; and both points of the tool are \<open>null\<close>.
\<close>

theorem EllipseTool_onMouseUp_commits:
  assumes "firstPoint t = Some p" and "tool_workingCanvas t \<noteq> tool_drawingCanvas t"
  shows "(let wc = tool_workingCanvas t; dc = tool_drawingCanvas t;
              q = getMouseEventCoordinates (h wc) e;
              q' = floorPoint q;
              t' = fst (EllipseTool_onMouseUp prim t h e);
              h' = snd (EllipseTool_onMouseUp prim t h e)
          in h' dc = setImageData (h dc) (prim (Some p) (Some q') (getImageData (h dc))) \<and>
             h' wc = clear (h wc) \<and>
             length (pixels (h' wc)) = length (pixels (h wc)) \<and>
             (\<forall>i < length (pixels (h wc)). pixels (h' wc) ! i = 0) \<and>
             set (pixels (h' wc)) \<subseteq> {0} \<and>
             h' wc = (h wc)\<lparr>pixels := pixels (h' wc)\<rparr> \<and>
             (\<forall>r. r \<noteq> wc \<and> r \<noteq> dc \<longrightarrow> h' r = h r) \<and>
             point_x q' = Math_floor (point_x q) \<and> point_y q' = Math_floor (point_y q) \<and>
             firstPoint t' = None \<and> secondPoint t' = None \<and>
             t' = t\<lparr>firstPoint := None, secondPoint := None\<rparr>)"
  using assms
  by (simp add: EllipseTool_onMouseUp_def EllipseTool_apply_def Let_def floorPoint_def clear_def
      set_replicate_conv_if)

theorem EllipseTool_onMouseUp_commits_witness:
  "firstPoint (fst ellipse_previewing) = Some (pixel_point 0 0) \<and>
   tool_workingCanvas (fst ellipse_previewing) \<noteq> tool_drawingCanvas (fst ellipse_previewing) \<and>
   pixels (snd ellipse_previewing 0) = [0, 0, 0, 255, 0, 0, 0, 255, 0, 0, 0, 0, 0, 0, 0, 0] \<and>
   pixels (snd (EllipseTool_onMouseUp diagonal_stroke (fst ellipse_previewing)
       (snd ellipse_previewing) (pointer 2.5 0)) 0)
     = [0, 0, 0, 0, 0, 0, 0, 0, 0, 0, 0, 0, 0, 0, 0, 0] \<and>
   pixels (snd (EllipseTool_onMouseUp diagonal_stroke (fst ellipse_previewing)
       (snd ellipse_previewing) (pointer 2.5 0)) 1)
     = [0, 0, 0, 255, 0, 0, 0, 255, 0, 0, 0, 255, 0, 0, 0, 0] \<and>
   fst (EllipseTool_onMouseUp diagonal_stroke (fst ellipse_previewing)
       (snd ellipse_previewing) (pointer 2.5 0))
     = EllipseTool_new 0 1"
proof -
  have first: "firstPoint (fst ellipse_previewing) = Some (pixel_point 0 0)"
    by (simp add: ellipse_previewing_tool)
  have two: "tool_workingCanvas (fst ellipse_previewing) \<noteq>
      tool_drawingCanvas (fst ellipse_previewing)"
    by (simp add: ellipse_previewing_tool EllipseTool_new_def)
  have painted: "pixels (snd ellipse_previewing 0) =
      [0, 0, 0, 255, 0, 0, 0, 255, 0, 0, 0, 0, 0, 0, 0, 0]"
    by (simp add: ellipse_previewing_store)
  from first two painted
    EllipseTool_onMouseUp_commits [OF first two, of "snd ellipse_previewing" "pointer 2.5 0"
      diagonal_stroke]
  show ?thesis
    by (simp add: Let_def ellipse_previewing_tool ellipse_previewing_store EllipseTool_new_def
        canvas_defs line_defs example_defs)
qed

section \<open>The two points of the ellipse tool\<close>

lemma EllipseTool_handle_inv:
  "EllipseTool_inv t \<Longrightarrow> EllipseTool_inv (fst (EllipseTool_handle prim (t, h) ev))"
  by (cases ev)
    (simp_all add: EllipseTool_inv_def EllipseTool_onMouseDown_def EllipseTool_onMouseUp_def
      EllipseTool_onMouseMove_def Let_def)

lemma EllipseTool_run_inv:
  "EllipseTool_inv (fst s) \<Longrightarrow> EllipseTool_inv (fst (EllipseTool_run prim s events))"
proof (induction events arbitrary: s)
  case Nil
  then show ?case by (simp add: EllipseTool_run_def)
next
  case (Cons ev events)
  obtain t h where s: "s = (t, h)" by (cases s)
  with Cons.prems have "EllipseTool_inv (fst (EllipseTool_handle prim s ev))"
    by (simp add: EllipseTool_handle_inv)
  from Cons.IH [OF this] show ?case by (simp add: EllipseTool_run_def)
qed

text \<open>
  C9. Both points are \<open>null\<close> after construction. The invariant, that the second point is
  \<open>null\<close> whenever the first is, holds after every sequence of events from construction
  on, and every handler keeps it. From a state with the invariant, both points are \<open>null\<close>
  after \<open>onMouseUp\<close>. \<open>onMouseDown\<close> never changes the second point, and \<open>onMouseMove\<close> and
  \<open>onMouseUp\<close> leave it as it is when the first point is \<open>null\<close>.
\<close>

theorem EllipseTool_points_invariant:
  "firstPoint (EllipseTool_new wc dc) = None \<and> secondPoint (EllipseTool_new wc dc) = None \<and>
   EllipseTool_inv (fst (EllipseTool_run prim (EllipseTool_new wc dc, h0) events)) \<and>
   (EllipseTool_inv t \<longrightarrow>
      EllipseTool_inv (fst (EllipseTool_handle prim (t, h) ev)) \<and>
      firstPoint (fst (EllipseTool_onMouseUp prim t h e)) = None \<and>
      secondPoint (fst (EllipseTool_onMouseUp prim t h e)) = None) \<and>
   secondPoint (fst (EllipseTool_onMouseDown t h e)) = secondPoint t \<and>
   (firstPoint t = None \<longrightarrow>
      secondPoint (fst (EllipseTool_onMouseMove prim t h e)) = secondPoint t \<and>
      secondPoint (fst (EllipseTool_onMouseUp prim t h e)) = secondPoint t)"
proof -
  have init: "EllipseTool_inv (fst (EllipseTool_new wc dc, h0))"
    by (simp add: EllipseTool_inv_def EllipseTool_new_def)
  have up: "EllipseTool_inv t \<Longrightarrow>
      firstPoint (fst (EllipseTool_onMouseUp prim t h e)) = None \<and>
      secondPoint (fst (EllipseTool_onMouseUp prim t h e)) = None"
    by (simp add: EllipseTool_inv_def EllipseTool_onMouseUp_def Let_def)
  show ?thesis
    using EllipseTool_run_inv [OF init, of prim events] EllipseTool_handle_inv [of t prim h ev] up
    by (simp add: EllipseTool_new_def EllipseTool_onMouseDown_def EllipseTool_onMouseMove_def
        EllipseTool_onMouseUp_def)
qed

theorem EllipseTool_points_invariant_witness:
  "EllipseTool_inv (EllipseTool_new 0 1) \<and> firstPoint (EllipseTool_new 0 1) = None \<and>
   EllipseTool_inv (fst (EllipseTool_run diagonal_stroke (EllipseTool_new 0 1, example_store)
     [mousedown (pointer 0 0), mousemove (pointer 1 0), mousedown (pointer 2 0)])) \<and>
   EllipseTool_inv (fst (EllipseTool_handle diagonal_stroke (EllipseTool_new 0 1, example_store)
     (mousedown (pointer 1 0)))) \<and>
   secondPoint (fst (EllipseTool_onMouseMove diagonal_stroke (EllipseTool_new 0 1) example_store
     (pointer 1 0))) = None"
proof -
  have inv: "EllipseTool_inv (EllipseTool_new 0 1)"
    by (simp add: EllipseTool_inv_def EllipseTool_new_def)
  have idle: "firstPoint (EllipseTool_new 0 1) = None"
    by (simp add: EllipseTool_new_def)
  have none: "secondPoint (EllipseTool_new 0 1) = None"
    by (simp add: EllipseTool_new_def)
  from inv idle none
    EllipseTool_points_invariant [of 0 1 diagonal_stroke example_store
      "[mousedown (pointer 0 0), mousemove (pointer 1 0), mousedown (pointer 2 0)]"
      "EllipseTool_new 0 1" example_store "mousedown (pointer 1 0)" "pointer 1 0"]
  show ?thesis by simp
qed

section \<open>Pointer-down during a gesture\<close>

text \<open>
  The free-hand tool ignores a pointer-down while it has a last position, so a second
  pointer-down in a row changes nothing in any sequence of events.
\<close>

lemma FreeHandTool_onMouseDown_dragging:
  "lastPosition f \<noteq> None \<Longrightarrow> FreeHandTool_onMouseDown f h e = (f, h)"
  by (simp add: FreeHandTool_onMouseDown_def)

lemma FreeHandTool_run_down_down:
  "FreeHandTool_run draw (f, h) (mousedown e1 # mousedown e2 # events) =
   FreeHandTool_run draw (f, h) (mousedown e1 # events)"
  by (simp add: FreeHandTool_run_def FreeHandTool_onMouseDown_def)

text \<open>
  C2. A pointer-down during a gesture should change nothing. The ellipse tool has no such
  guard: after a pointer-down at \<open>(0, 0)\<close>, a second pointer-down at \<open>(2, 0)\<close> replaces the
  first point, and the shape committed by down, down, move, up is computed from the
  rectangle with corners \<open>(2, 0)\<close> and \<open>(3, 0)\<close>, where down, move, up at the same positions
  computes it from the rectangle with corners \<open>(0, 0)\<close> and \<open>(3, 0)\<close>.
\<close>

theorem EllipseTool_onMouseDown_dragging:
  "firstPoint ellipse_dragging = Some (pixel_point 0 0) \<and>
   firstPoint (fst (EllipseTool_onMouseDown ellipse_dragging example_store (pointer 2 0))) =
     Some (pixel_point 2 0) \<and>
   EllipseTool_onMouseDown ellipse_dragging example_store (pointer 2 0) \<noteq>
     (ellipse_dragging, example_store) \<and>
   snd (EllipseTool_run prim (EllipseTool_new 0 1, example_store)
         [mousedown (pointer 0 0), mousedown (pointer 2 0), mousemove (pointer 3 0),
          mouseup (pointer 3 0)]) 1 =
     setImageData (example_store 1)
       (prim (Some (pixel_point 2 0)) (Some (pixel_point 3 0)) (getImageData (example_store 1))) \<and>
   snd (EllipseTool_run prim (EllipseTool_new 0 1, example_store)
         [mousedown (pointer 0 0), mousemove (pointer 3 0), mouseup (pointer 3 0)]) 1 =
     setImageData (example_store 1)
       (prim (Some (pixel_point 0 0)) (Some (pixel_point 3 0)) (getImageData (example_store 1)))"
proof -
  have moved: "firstPoint (fst (EllipseTool_onMouseDown ellipse_dragging example_store (pointer 2 0)))
      = Some (pixel_point 2 0)"
    by (simp add: ellipse_dragging_eq ellipse_defs canvas_defs example_defs)
  have before: "firstPoint ellipse_dragging = Some (pixel_point 0 0)"
    by (simp add: ellipse_dragging_eq)
  have "pixel_point 2 0 \<noteq> pixel_point 0 0"
    by (simp add: pixel_point_def)
  with moved before
  have changed: "EllipseTool_onMouseDown ellipse_dragging example_store (pointer 2 0) \<noteq>
      (ellipse_dragging, example_store)"
    by auto
  have twice: "snd (EllipseTool_run prim (EllipseTool_new 0 1, example_store)
         [mousedown (pointer 0 0), mousedown (pointer 2 0), mousemove (pointer 3 0),
          mouseup (pointer 3 0)]) 1 =
     setImageData (example_store 1)
       (prim (Some (pixel_point 2 0)) (Some (pixel_point 3 0)) (getImageData (example_store 1)))"
    by (simp add: ellipse_defs canvas_defs example_defs Let_def)
  have once: "snd (EllipseTool_run prim (EllipseTool_new 0 1, example_store)
         [mousedown (pointer 0 0), mousemove (pointer 3 0), mouseup (pointer 3 0)]) 1 =
     setImageData (example_store 1)
       (prim (Some (pixel_point 0 0)) (Some (pixel_point 3 0)) (getImageData (example_store 1)))"
    by (simp add: ellipse_defs canvas_defs example_defs Let_def)
  from before moved changed twice once show ?thesis by simp
qed

section \<open>Which canvas a gesture writes\<close>

text \<open>
  C1, as the claim states it, fails for the free-hand tool: in the middle of a gesture
  that started at \<open>(0, 0)\<close>, a pointer-move to \<open>(1, 0)\<close> changes the pixel data of the
  drawing canvas.
\<close>

theorem FreeHandTool_onMouseMove_writes_drawingCanvas:
  "lastPosition freehand_dragging \<noteq> None \<and>
   pixels (snd (FreeHandTool_onMouseMove Line_draw_black freehand_dragging example_store
         (pointer 1 0)) (drawingCanvas (workspace freehand_dragging))) \<noteq>
   pixels (example_store (drawingCanvas (workspace freehand_dragging)))"
  by (simp add: freehand_dragging_eq freehand_defs canvas_defs line_defs example_defs Let_def)

text \<open>
  C1, amended. For the ellipse tool with a working canvas and a drawing canvas that are
  two canvases: \<open>onMouseDown\<close> writes no canvas, \<open>onMouseMove\<close> writes the working canvas
  only, and \<open>onMouseUp\<close> during a gesture gives the drawing canvas what the primitive made
  of its former pixel data, in one write. The free-hand tool has no preview:
  \<open>onMouseDown\<close> writes no canvas, and \<open>onMouseMove\<close> writes the drawing canvas only, which
  during a gesture receives the segment from the last position to the floored position of
  the event.
\<close>

theorem gesture_surface_writes:
  "(tool_workingCanvas t \<noteq> tool_drawingCanvas t \<longrightarrow>
      snd (EllipseTool_onMouseDown t h e) = h \<and>
      snd (EllipseTool_onMouseMove prim t h e) (tool_drawingCanvas t) = h (tool_drawingCanvas t) \<and>
      (\<forall>r. r \<noteq> tool_workingCanvas t \<longrightarrow> snd (EllipseTool_onMouseMove prim t h e) r = h r) \<and>
      (\<forall>p. firstPoint t = Some p \<longrightarrow>
         snd (EllipseTool_onMouseUp prim t h e) (tool_drawingCanvas t) =
           setImageData (h (tool_drawingCanvas t))
             (prim (Some p)
                (Some (floorPoint (getMouseEventCoordinates (h (tool_workingCanvas t)) e)))
                (getImageData (h (tool_drawingCanvas t)))))) \<and>
   snd (FreeHandTool_onMouseDown f h e) = h \<and>
   (\<forall>r. r \<noteq> drawingCanvas (workspace f) \<longrightarrow> snd (FreeHandTool_onMouseMove draw f h e) r = h r) \<and>
   (\<forall>p. lastPosition f = Some p \<longrightarrow>
      snd (FreeHandTool_onMouseMove draw f h e) (drawingCanvas (workspace f)) =
        setImageData (h (drawingCanvas (workspace f)))
          (draw (getImageData (h (drawingCanvas (workspace f)))) (Some p)
             (floorPoint (getMouseEventCoordinates (h (workingCanvas (workspace f))) e))))"
  by (simp add: EllipseTool_onMouseDown_def EllipseTool_onMouseMove_def EllipseTool_onMouseUp_def
      EllipseTool_apply_def FreeHandTool_onMouseDown_def FreeHandTool_onMouseMove_def
      FreeHandTool_drawLine_def Let_def)

theorem gesture_surface_writes_witness:
  "tool_workingCanvas ellipse_dragging \<noteq> tool_drawingCanvas ellipse_dragging \<and>
   firstPoint ellipse_dragging = Some (pixel_point 0 0) \<and>
   lastPosition freehand_dragging = Some (pixel_point 0 0) \<and>
   snd (EllipseTool_onMouseMove diagonal_stroke ellipse_dragging example_store (pointer 1 0)) 1
     = example_store 1 \<and>
   pixels (snd (EllipseTool_onMouseMove diagonal_stroke ellipse_dragging example_store
       (pointer 1 0)) 0)
     = [0, 0, 0, 255, 0, 0, 0, 255, 0, 0, 0, 0, 0, 0, 0, 0] \<and>
   pixels (snd (EllipseTool_onMouseUp diagonal_stroke ellipse_dragging example_store
       (pointer 1 0)) 1)
     = [0, 0, 0, 255, 0, 0, 0, 255, 0, 0, 0, 0, 0, 0, 0, 0] \<and>
   snd (FreeHandTool_onMouseMove Line_draw_black freehand_dragging example_store (pointer 1 0)) 0
     = example_store 0 \<and>
   pixels (snd (FreeHandTool_onMouseMove Line_draw_black freehand_dragging example_store
       (pointer 1 0)) 1)
     = [0, 0, 0, 255, 0, 0, 0, 255, 0, 0, 0, 0, 0, 0, 0, 0]"
proof -
  have two: "tool_workingCanvas ellipse_dragging \<noteq> tool_drawingCanvas ellipse_dragging"
    by (simp add: ellipse_dragging_eq EllipseTool_new_def)
  have first: "firstPoint ellipse_dragging = Some (pixel_point 0 0)"
    by (simp add: ellipse_dragging_eq)
  have last: "lastPosition freehand_dragging = Some (pixel_point 0 0)"
    by (simp add: freehand_dragging_eq)
  from two first last
    gesture_surface_writes [of ellipse_dragging example_store "pointer 1 0" diagonal_stroke
      freehand_dragging Line_draw_black]
  show ?thesis
    by (simp add: ellipse_dragging_eq freehand_dragging_eq ellipse_defs freehand_defs canvas_defs
        line_defs example_defs Let_def)
qed

section \<open>Pointer-up of the free-hand tool during a gesture\<close>

text \<open>
  C4, as the claim states it, fails: after a pointer-down at \<open>(0, 0)\<close> and a pointer-move to
  \<open>(1, 0)\<close>, a pointer-up at \<open>(3, 0)\<close> changes the pixel data that the drawing canvas had
  after the pointer-move.
\<close>

theorem FreeHandTool_onMouseUp_draws:
  "pixels (snd (FreeHandTool_run Line_draw_black (FreeHandTool_new example_workspace, example_store)
       [mousedown (pointer 0 0), mousemove (pointer 1 0), mouseup (pointer 3 0)])
     (drawingCanvas example_workspace)) \<noteq>
   pixels (snd (FreeHandTool_run Line_draw_black (FreeHandTool_new example_workspace, example_store)
       [mousedown (pointer 0 0), mousemove (pointer 1 0)])
     (drawingCanvas example_workspace))"
  by (simp add: freehand_defs canvas_defs line_defs example_defs Let_def)

text \<open>
  C4, amended. A pointer-up received by the free-hand tool during a gesture first does
  what a pointer-move at the same position does: the drawing canvas receives the segment
  from the last position to the floored position of the event, and no other canvas
  changes, so the canvases are those that \<open>onMouseMove\<close> with the same event leaves. Then
  the last position is reset to \<open>null\<close>, and nothing else in the tool changes.
\<close>

theorem FreeHandTool_onMouseUp_last_segment:
  assumes "lastPosition f = Some p"
  shows "(let dc = drawingCanvas (workspace f);
              q = floorPoint (getMouseEventCoordinates (h (workingCanvas (workspace f))) e);
              f' = fst (FreeHandTool_onMouseUp draw f h e);
              h' = snd (FreeHandTool_onMouseUp draw f h e)
          in h' dc = setImageData (h dc) (draw (getImageData (h dc)) (Some p) q) \<and>
             (\<forall>r. r \<noteq> dc \<longrightarrow> h' r = h r) \<and>
             h' = snd (FreeHandTool_onMouseMove draw f h e) \<and>
             f' = f\<lparr>lastPosition := None\<rparr>)"
  using assms
  by (simp add: FreeHandTool_onMouseUp_def FreeHandTool_onMouseMove_def FreeHandTool_drawLine_def
      Let_def)

theorem FreeHandTool_onMouseUp_last_segment_witness:
  "lastPosition freehand_dragging = Some (pixel_point 0 0) \<and>
   pixels (snd (FreeHandTool_onMouseUp Line_draw_black freehand_dragging example_store
       (pointer 2 0)) 1)
     = [0, 0, 0, 255, 0, 0, 0, 255, 0, 0, 0, 255, 0, 0, 0, 0] \<and>
   snd (FreeHandTool_onMouseUp Line_draw_black freehand_dragging example_store (pointer 2 0)) 0
     = example_store 0 \<and>
   fst (FreeHandTool_onMouseUp Line_draw_black freehand_dragging example_store (pointer 2 0))
     = FreeHandTool_new example_workspace"
proof -
  have last: "lastPosition freehand_dragging = Some (pixel_point 0 0)"
    by (simp add: freehand_dragging_eq)
  from last
    FreeHandTool_onMouseUp_last_segment [OF last, of example_store "pointer 2 0" Line_draw_black]
  show ?thesis
    by (simp add: freehand_dragging_eq freehand_defs Let_def canvas_defs line_defs example_defs)
qed

end
